theory Spec2Isabelle
  imports Main "HOL-Library.Word"
begin

section \<open>Stripeflare: the webhook handler of \<^verbatim>\<open>src/main.ts\<close>\<close>

text \<open>
  The worker exports one function, \<^verbatim>\<open>fetch(request, env)\<close>, with two helpers,
  \<^verbatim>\<open>streamToBuffer\<close> and \<^verbatim>\<open>updateSubscribed\<close>. The embedding follows that file
  line by line. What the file takes from outside the repository (the Stripe
  library's \<^verbatim>\<open>constructEventAsync\<close> and the runtime's \<^verbatim>\<open>TextDecoder\<close>) is a
  parameter of the model. Exceptions are values of type \<open>error\<close>; what
  \<^verbatim>\<open>console.log\<close> and \<^verbatim>\<open>console.warn\<close> print is returned as a list of log entries,
  the only effect the handler has besides its response.
\<close>

subsection \<open>Bytes, streams and errors\<close>

type_synonym byte = "8 word"
type_synonym bytes = "byte list"

text \<open>
  A \<^verbatim>\<open>ReadableStream<Uint8Array>\<close> as the reader sees it: the chunks that successive
  \<^verbatim>\<open>reader.read()\<close> calls resolve to, and how the stream ends: \<^verbatim>\<open>{done: true}\<close>, or a
  rejected read (the stream errored, or the caller went away). A stream is taken to end
  in one of these two ways; on one that never does, the loop of \<^verbatim>\<open>streamToBuffer\<close>
  would wait for ever, and such a stream is not a value of this type.
\<close>

datatype stream_end = Closed | Errored string

type_synonym readable_stream = "bytes list \<times> stream_end"

datatype error =
    Stream_error string   \<comment> \<open>the rejection of \<^verbatim>\<open>reader.read()\<close>\<close>
  | Range_error           \<comment> \<open>\<^verbatim>\<open>TypedArray.prototype.set\<close> with a source that does not fit\<close>
  | Type_error            \<comment> \<open>reading a property of \<^verbatim>\<open>null\<close> or \<^verbatim>\<open>undefined\<close>\<close>

subsection \<open>\<^verbatim>\<open>streamToBuffer\<close> (main.ts, lines 24 to 56)\<close>

text \<open>
  The \<^verbatim>\<open>while (true)\<close> loop of lines 31 to 37: every value read is pushed on
  \<^verbatim>\<open>chunks\<close>; \<^verbatim>\<open>done\<close> leaves the loop; a rejected read leaves the function through
  \<^verbatim>\<open>finally\<close> (which only releases the lock) with the rejection as its exception.
\<close>

fun read_loop :: "bytes list \<Rightarrow> stream_end \<Rightarrow> bytes list \<Rightarrow> error + bytes list" where
  "read_loop [] Closed chunks = Inr chunks"
| "read_loop [] (Errored e) chunks = Inl (Stream_error e)"
| "read_loop (v # pending) fin chunks = read_loop pending fin (chunks @ [v])"

text \<open>\<^verbatim>\<open>chunks.reduce((acc, chunk) => acc + chunk.length, 0)\<close>\<close>

definition totalLength :: "bytes list \<Rightarrow> nat" where
  "totalLength chunks = foldl (\<lambda>acc chunk. acc + length chunk) 0 chunks"

text \<open>
  \<^verbatim>\<open>result.set(chunk, position)\<close>: the bytes of \<^verbatim>\<open>chunk\<close> overwrite those of
  \<^verbatim>\<open>result\<close> from index \<^verbatim>\<open>position\<close> on; JavaScript throws a RangeError when the
  chunk would reach beyond the end of \<^verbatim>\<open>result\<close>.
\<close>

definition set_at :: "bytes \<Rightarrow> bytes \<Rightarrow> nat \<Rightarrow> error + bytes" where
  "set_at result chunk position =
     (if length result < position + length chunk then Inl Range_error
      else Inr (take position result @ chunk @ drop (position + length chunk) result))"

text \<open>The \<^verbatim>\<open>for (const chunk of chunks)\<close> loop of lines 49 to 53.\<close>

fun copy_chunks :: "bytes list \<Rightarrow> bytes \<Rightarrow> nat \<Rightarrow> error + bytes" where
  "copy_chunks [] result position = Inr result"
| "copy_chunks (chunk # rest) result position =
     (case set_at result chunk position of
        Inl e \<Rightarrow> Inl e
      | Inr result' \<Rightarrow> copy_chunks rest result' (position + length chunk))"

definition streamToBuffer :: "readable_stream \<Rightarrow> error + bytes" where
  "streamToBuffer readableStream =
     (case read_loop (fst readableStream) (snd readableStream) [] of
        Inl e \<Rightarrow> Inl e
      | Inr chunks \<Rightarrow> copy_chunks chunks (replicate (totalLength chunks) 0) 0)"

subsection \<open>Requests, responses and the environment\<close>

text \<open>
  \<^verbatim>\<open>Env\<close> (lines 3 to 8). The type says \<^verbatim>\<open>string\<close>, but a binding that is not
  configured reads as \<^verbatim>\<open>undefined\<close>, which is what the test of lines 85 to 90 is
  for: \<open>None\<close> is a missing binding.
\<close>

record env =
  STRIPE_WEBHOOK_SIGNING_SECRET :: "string option"
  STRIPE_SECRET :: "string option"
  STRIPE_PUBLISHABLE_KEY :: "string option"
  STRIPE_PAYMENT_LINK_ID :: "string option"

text \<open>
  What the handler can see of a \<^verbatim>\<open>Request\<close>: its URL and method (which it never
  reads), its headers (\<^verbatim>\<open>headers.get\<close>, keyed by the lower-case header name) and its
  body, \<^verbatim>\<open>null\<close> or a stream.
\<close>

record request =
  url :: string
  http_method :: string
  headers :: "string \<rightharpoonup> string"
  body :: "readable_stream option"

text \<open>
  A \<^verbatim>\<open>Response\<close>: the status, the headers given to the constructor and the body.
  \<^verbatim>\<open>new Response(body, init)\<close> has status 200 when \<^verbatim>\<open>init\<close> gives none.
\<close>

record response =
  resp_status :: nat
  resp_headers :: "(string \<times> string) list"
  resp_body :: string

definition new_Response :: "string \<Rightarrow> nat option \<Rightarrow> (string \<times> string) list \<Rightarrow> response" where
  "new_Response text init_status init_headers =
     \<lparr>resp_status = (case init_status of None \<Rightarrow> 200 | Some s \<Rightarrow> s),
      resp_headers = init_headers,
      resp_body = text\<rparr>"

definition json_headers :: "(string \<times> string) list" where
  "json_headers = [(''Content-Type'', ''application/json'')]"

subsection \<open>Stripe events\<close>

text \<open>
  The fields of \<^verbatim>\<open>event.data.object\<close> that the handler reads, for a checkout session
  (\<^verbatim>\<open>payment_status\<close>, \<^verbatim>\<open>mode\<close>, \<^verbatim>\<open>amount_total\<close>, \<^verbatim>\<open>payment_link\<close>,
  \<^verbatim>\<open>customer_details\<close>, \<^verbatim>\<open>currency\<close>) and for a subscription (\<^verbatim>\<open>status\<close>). The
  code compares them with string literals, so they are strings here; \<open>None\<close> is
  \<^verbatim>\<open>null\<close> or a field the object does not have.
\<close>

record customer =
  email :: "string option"
  name :: "string option"

record stripe_object =
  payment_status :: "string option"
  mode :: "string option"
  amount_total :: "int option"
  payment_link :: "string option"
  customer_details :: "customer option"
  currency :: "string option"
  status :: "string option"

record event =
  event_id :: string
  event_type :: string
  data_object :: stripe_object

text \<open>
  What \<^verbatim>\<open>constructEventAsync\<close> can resolve to, as far as main.ts tells one value from
  another. The library resolves to whatever the signed payload parses to, and the
  handler reads \<^verbatim>\<open>event.type\<close> (line 139) and \<^verbatim>\<open>event.data.object\<close> (lines 147 and
  190) outside its \<^verbatim>\<open>try\<close>. A value with no \<^verbatim>\<open>type\<close> (an object without the key, a
  number, a string) goes the way of any type that is not handled.
\<close>

datatype resolved =
    Event event
      \<comment> \<open>an object with a \<^verbatim>\<open>type\<close> and a \<^verbatim>\<open>data.object\<close>\<close>
  | No_event
      \<comment> \<open>\<^verbatim>\<open>null\<close> or \<^verbatim>\<open>undefined\<close>\<close>
  | No_data_object string
      \<comment> \<open>an object of this \<^verbatim>\<open>type\<close> whose \<^verbatim>\<open>data\<close> or \<^verbatim>\<open>data.object\<close> is
          \<^verbatim>\<open>null\<close> or missing\<close>

text \<open>
  What main.ts calls and does not define: \<^verbatim>\<open>new TextDecoder().decode\<close> of the
  runtime and \<^verbatim>\<open>stripe.webhooks.constructEventAsync(payload, header, secret)\<close> of the
  Stripe library, which resolves or throws; \<open>Inl\<close> carries \<^verbatim>\<open>String(err)\<close> of what it
  throws. \<^verbatim>\<open>new Stripe(stripeSecret, ...)\<close> of line 102 only builds the client that
  \<^verbatim>\<open>constructEventAsync\<close> is called on, and the default \<^verbatim>\<open>TextDecoder\<close> replaces what
  it cannot decode: neither throws. Every theorem below holds for any such pair of
  functions.
\<close>

record platform =
  decode :: "bytes \<Rightarrow> string"
  constructEventAsync :: "string \<Rightarrow> string \<Rightarrow> string \<Rightarrow> string + resolved"

text \<open>What the handler prints, one constructor per \<^verbatim>\<open>console\<close> call of main.ts.\<close>

datatype log_entry =
    Log_no_stripe_credentials "string option" "string option" "string option"
      \<comment> \<open>line 91, with the publishable key, the secret and the signing secret\<close>
  | Log_no_stripe_signature
      \<comment> \<open>line 109\<close>
  | Warn_error_web_hook string
      \<comment> \<open>line 134\<close>
  | Log_not_implemented_yet stripe_object string
      \<comment> \<open>line 173: the session and the message, where the payment would be fulfilled\<close>

subsection \<open>JavaScript's coercions\<close>

text \<open>\<^verbatim>\<open>!s\<close> is false exactly for a string that is present and not empty.\<close>

definition truthy :: "string option \<Rightarrow> string option" where
  "truthy s = (case s of None \<Rightarrow> None | Some t \<Rightarrow> if t = [] then None else Some t)"

text \<open>\<^verbatim>\<open>!n\<close> for a number or \<^verbatim>\<open>null\<close>: true for \<^verbatim>\<open>null\<close> and for 0.\<close>

definition not_number :: "int option \<Rightarrow> bool" where
  "not_number n = (n = None \<or> n = Some 0)"

text \<open>\<^verbatim>\<open>x < n\<close> for a number or \<^verbatim>\<open>null\<close>: \<^verbatim>\<open>null\<close> is compared as 0.\<close>

definition less_than :: "int option \<Rightarrow> int \<Rightarrow> bool" where
  "less_than x n = (case x of None \<Rightarrow> 0 < n | Some a \<Rightarrow> a < n)"

fun decimal :: "nat \<Rightarrow> string" where
  "decimal n =
     (if n < 10 then [''0123456789'' ! n]
      else decimal (n div 10) @ [''0123456789'' ! (n mod 10)])"

definition number_to_string :: "int \<Rightarrow> string" where
  "number_to_string i = (if i < 0 then CHR ''-'' # decimal (nat (- i)) else decimal (nat i))"

text \<open>
  \<^verbatim>\<open>${x}\<close> in a template literal, for a string or \<^verbatim>\<open>null\<close> and for a number or
  \<^verbatim>\<open>null\<close>. \<open>None\<close> prints as \<^verbatim>\<open>null\<close>; a key that the object does not have
  would print as \<^verbatim>\<open>undefined\<close>, which the model does not tell from \<^verbatim>\<open>null\<close>. The
  digits are those of an integer that JavaScript prints in full (below \<^verbatim>\<open>1e21\<close> in
  absolute value).
\<close>

definition template :: "string option \<Rightarrow> string" where
  "template s = (case s of None \<Rightarrow> ''null'' | Some t \<Rightarrow> t)"

definition template_number :: "int option \<Rightarrow> string" where
  "template_number n = (case n of None \<Rightarrow> ''null'' | Some i \<Rightarrow> number_to_string i)"

subsection \<open>\<^verbatim>\<open>updateSubscribed\<close> (main.ts, lines 10 to 22)\<close>

record subscribed_result =
  result_status :: nat
  message :: string

definition updateSubscribed :: "stripe_object \<Rightarrow> subscribed_result" where
  "updateSubscribed data =
     (let shouldRemoveSubscription =
            (status data = Some ''unpaid'' \<or> status data = Some ''canceled'')
      in if \<not> shouldRemoveSubscription
         then \<lparr>result_status = 200, message = ''No action required''\<rparr>
         else \<lparr>result_status = 200,
               message = ''Removed from subscribers (they had credits before removal)''\<rparr>)"

text \<open>
  \<^verbatim>\<open>JSON.stringify(result)\<close> for the two-field object that \<^verbatim>\<open>updateSubscribed\<close>
  returns; neither message has a character that JSON escapes.
\<close>

definition stringify_result :: "subscribed_result \<Rightarrow> string" where
  \<open>stringify_result r =
     ''{"status":'' @ decimal (result_status r) @ '',"message":"'' @ message r @ ''"}''\<close>

subsection \<open>\<^verbatim>\<open>fetch\<close> (main.ts, lines 66 to 207)\<close>

text \<open>
  Lines 68 to 137, up to the verified event: the handler has answered, or an exception
  has left it, or it goes on with what \<^verbatim>\<open>constructEventAsync\<close> resolved to.
  \<open>Verified event\<close> is the case of an event with its \<^verbatim>\<open>type\<close> and \<^verbatim>\<open>data.object\<close>.
\<close>

datatype verification =
    Responded "log_entry list" response
  | Threw error
  | Resolved resolved

abbreviation Verified :: "event \<Rightarrow> verification" where
  "Verified event \<equiv> Resolved (Event event)"

definition verify_request :: "platform \<Rightarrow> request \<Rightarrow> env \<Rightarrow> verification" where
  \<open>verify_request pf request env =
     (case body request of
        None \<Rightarrow>
          Responded []
            (new_Response ''{"isSuccessful":false,"message":"No body"}'' None json_headers)
      | Some readableStream \<Rightarrow>
          (case streamToBuffer readableStream of
             Inl e \<Rightarrow> Threw e
           | Inr rawBody \<Rightarrow>
               (let rawBodyString = decode pf rawBody;
                    stripeWebhookSigningSecret = STRIPE_WEBHOOK_SIGNING_SECRET env;
                    stripeSecret = STRIPE_SECRET env;
                    stripePublishableKey = STRIPE_PUBLISHABLE_KEY env;
                    paymentLinkId = STRIPE_PAYMENT_LINK_ID env
                in case (truthy stripeWebhookSigningSecret, truthy stripeSecret,
                         truthy stripePublishableKey, truthy paymentLinkId) of
                     (Some secret, Some _, Some _, Some _) \<Rightarrow>
                       (case truthy (headers request ''stripe-signature'') of
                          None \<Rightarrow>
                            Responded [Log_no_stripe_signature]
                              (new_Response ''{"isSuccessful":false,"message":"No signature"}''
                                 (Some 400) json_headers)
                        | Some stripeSignature \<Rightarrow>
                            (case constructEventAsync pf rawBodyString stripeSignature secret of
                               Inl err \<Rightarrow>
                                 Responded [Warn_error_web_hook err]
                                   (new_Response (''webhook error '' @ err) (Some 400) [])
                             | Inr event \<Rightarrow> Resolved event))
                   | _ \<Rightarrow>
                       Responded
                         [Log_no_stripe_credentials stripePublishableKey stripeSecret
                            stripeWebhookSigningSecret]
                         (new_Response ''{"isSuccessful":false,"message":"No stripe creds"}''
                            (Some 500) json_headers))))\<close>

text \<open>
  Lines 139 to 182, the branch of \<^verbatim>\<open>checkout.session.completed\<close>. The handler gets
  here only past line 89, so with a \<^verbatim>\<open>STRIPE_PAYMENT_LINK_ID\<close> that is a string and not
  empty: line 149 compares the session's link, a string or \<^verbatim>\<open>null\<close>, with a string.
\<close>

definition checkout_session_completed :: "env \<Rightarrow> stripe_object \<Rightarrow> log_entry list \<times> response" where
  "checkout_session_completed env object =
     (if payment_link object \<noteq> STRIPE_PAYMENT_LINK_ID env
      then ([], new_Response ''No payment link found'' (Some 400) [])
      else if payment_status object \<noteq> Some ''paid'' \<or> not_number (amount_total object)
      then ([], new_Response ''Payment not paid yet'' (Some 400) [])
      else (case customer_details object of
              None \<Rightarrow> ([], new_Response ''No customer details provided'' (Some 400) [])
            | Some details \<Rightarrow>
                if mode object = Some ''subscription'' \<or> mode object = Some ''setup''
                then ([], new_Response ''Not supported yet'' (Some 400) [])
                else if less_than (amount_total object) 50
                then ([], new_Response ''Paid less than $0.50'' (Some 400) [])
                else (let text = ''Not implemented yet, but '' @ template (name details)
                                 @ '' <'' @ template (email details) @ ''> paid ''
                                 @ template_number (amount_total object) @ '' cents''
                      in ([Log_not_implemented_yet object text], new_Response text None []))))"

text \<open>Lines 139 to 206: the three ways the handler goes on from the event's type.\<close>

definition dispatch :: "env \<Rightarrow> event \<Rightarrow> log_entry list \<times> response" where
  \<open>dispatch env event =
     (if event_type event = ''checkout.session.completed''
      then checkout_session_completed env (data_object event)
      else if event_type event = ''customer.subscription.deleted''
              \<or> event_type event = ''customer.subscription.updated''
              \<or> event_type event = ''customer.subscription.paused''
      then ([], new_Response (stringify_result (updateSubscribed (data_object event)))
                  None json_headers)
      else ([], new_Response ''{"isSuccessful":false,"message":"Invalid event"}''
                  (Some 404) []))\<close>

text \<open>The types that lines 139 and 185 to 189 test for.\<close>

definition handled :: "string \<Rightarrow> bool" where
  "handled type =
     (type = ''checkout.session.completed''
      \<or> type = ''customer.subscription.deleted''
      \<or> type = ''customer.subscription.updated''
      \<or> type = ''customer.subscription.paused'')"

text \<open>
  The handler: what it logged, and the response it resolved to (\<open>Inr\<close>) or the
  exception that left it (\<open>Inl\<close>). On \<^verbatim>\<open>null\<close> line 139 throws. On an object without
  its \<^verbatim>\<open>data.object\<close>, line 147 throws for a checkout (in \<^verbatim>\<open>event.data.object\<close> or in
  the destructuring), line 190 or line 12 throws for a subscription (in
  \<^verbatim>\<open>event.data.object\<close> or in \<^verbatim>\<open>data.status\<close>), and any other type gets the answer of
  lines 202 to 205, which reads no data.
\<close>

definition fetch :: "platform \<Rightarrow> request \<Rightarrow> env \<Rightarrow> log_entry list \<times> (error + response)" where
  \<open>fetch pf request env =
     (case verify_request pf request env of
        Responded log resp \<Rightarrow> (log, Inr resp)
      | Threw e \<Rightarrow> ([], Inl e)
      | Resolved r \<Rightarrow>
          (case r of
             Event event \<Rightarrow> (case dispatch env event of (log, resp) \<Rightarrow> (log, Inr resp))
           | No_event \<Rightarrow> ([], Inl Type_error)
           | No_data_object type \<Rightarrow>
               if handled type then ([], Inl Type_error)
               else ([], Inr (new_Response ''{"isSuccessful":false,"message":"Invalid event"}''
                               (Some 404) []))))\<close>


subsection \<open>Repeated delivery\<close>

text \<open>
  Stripe delivers an event at least once. \<open>deliver\<close> is the same request handled
  \<open>n\<close> times in a row: everything logged, in order, and the \<open>n\<close> results. The
  handler has no other state to thread from one call to the next.
\<close>

fun deliver :: "platform \<Rightarrow> request \<Rightarrow> env \<Rightarrow> nat \<Rightarrow> log_entry list \<times> (error + response) list" where
  "deliver pf request env 0 = ([], [])"
| "deliver pf request env (Suc n) =
     (case fetch pf request env of (log, result) \<Rightarrow>
        (case deliver pf request env n of (logs, results) \<Rightarrow> (log @ logs, result # results)))"

text \<open>
  Line 173 to 178 is where the payment would be fulfilled (\<^verbatim>\<open>Do something here in your
  KV or DO or whatever\<close>); the entry logged there marks one run of that place.
\<close>

fun is_fulfillment :: "log_entry \<Rightarrow> bool" where
  "is_fulfillment (Log_not_implemented_yet object text) = True"
| "is_fulfillment _ = False"

definition fulfillments :: "log_entry list \<Rightarrow> nat" where
  "fulfillments log = length (filter is_fulfillment log)"

text \<open>
  How Stripe reads a result: a status from 200 to 299 acknowledges the event, a status
  from 400 to 499 is a client error; an exception that leaves the handler is neither.
\<close>

definition is_success :: "error + response \<Rightarrow> bool" where
  "is_success result =
     (case result of Inl e \<Rightarrow> False
      | Inr resp \<Rightarrow> 200 \<le> resp_status resp \<and> resp_status resp < 300)"

definition is_client_error :: "error + response \<Rightarrow> bool" where
  "is_client_error result =
     (case result of Inl e \<Rightarrow> False
      | Inr resp \<Rightarrow> 400 \<le> resp_status resp \<and> resp_status resp < 500)"

subsection \<open>A deployment to run the handler on\<close>

text \<open>
  A configured environment, a toy platform (ASCII decoding; a verifier that accepts the
  header \<^verbatim>\<open>v1=<secret>\<close> and then resolves to a given value) and requests that carry a
  body in two chunks.
\<close>

definition ex_env :: env where
  "ex_env = \<lparr>STRIPE_WEBHOOK_SIGNING_SECRET = Some ''whsec_test'',
             STRIPE_SECRET = Some ''sk_test'',
             STRIPE_PUBLISHABLE_KEY = Some ''pk_test'',
             STRIPE_PAYMENT_LINK_ID = Some ''plink_1''\<rparr>"

definition ex_resolving :: "resolved \<Rightarrow> platform" where
  "ex_resolving r =
     \<lparr>decode = map (\<lambda>b. char_of (unat b)),
      constructEventAsync = (\<lambda>payload header secret.
        if header = ''v1='' @ secret \<and> payload = ''{}'' then Inr r
        else Inl ''StripeSignatureVerificationError'')\<rparr>"

definition ex_platform :: "event \<Rightarrow> platform" where
  "ex_platform event = ex_resolving (Event event)"

definition ex_request :: "string \<Rightarrow> string \<Rightarrow> readable_stream option \<Rightarrow> request" where
  "ex_request path method stream =
     \<lparr>url = ''https://example.com'' @ path,
      http_method = method,
      headers = [''stripe-signature'' \<mapsto> ''v1=whsec_test''],
      body = stream\<rparr>"

definition ex_body :: readable_stream where
  "ex_body = ([[0x7B], [0x7D]], Closed)"

definition ex_session :: stripe_object where
  "ex_session =
     \<lparr>payment_status = Some ''paid'', mode = Some ''payment'', amount_total = Some 500,
      payment_link = Some ''plink_1'',
      customer_details = Some \<lparr>email = Some ''ann@example.com'', name = Some ''Ann''\<rparr>,
      currency = Some ''usd'', status = Some ''complete''\<rparr>"

definition ex_checkout :: "stripe_object \<Rightarrow> event" where
  "ex_checkout object =
     \<lparr>event_id = ''evt_1'', event_type = ''checkout.session.completed'', data_object = object\<rparr>"

definition ex_subscription :: "string \<Rightarrow> string \<Rightarrow> event" where
  "ex_subscription type st =
     \<lparr>event_id = ''evt_2'', event_type = type,
      data_object = \<lparr>payment_status = None, mode = None, amount_total = None,
                     payment_link = None, customer_details = None, currency = Some ''usd'',
                     status = Some st\<rparr>\<rparr>"

subsection \<open>The collected buffer\<close>

lemma read_loop_Closed: "read_loop pending Closed chunks = Inr (chunks @ pending)"
  by (induction pending arbitrary: chunks) simp_all


lemma foldl_length_acc:
  "foldl (\<lambda>acc chunk. acc + length chunk) a chunks = a + length (concat chunks)"
  by (induction chunks arbitrary: a) simp_all

lemma totalLength_concat: "totalLength chunks = length (concat chunks)"
  by (simp add: totalLength_def foldl_length_acc)

text \<open>
  The invariant of the copy loop: with \<open>position\<close> bytes already written and room for
  exactly the chunks that are left, no \<^verbatim>\<open>set\<close> is out of range and the loop ends with
  the written prefix followed by the chunks in order.
\<close>

lemma copy_chunks_fills:
  "length result = position + length (concat chunks) \<Longrightarrow>
   copy_chunks chunks result position = Inr (take position result @ concat chunks)"
proof (induction chunks arbitrary: result position)
  case Nil
  then show ?case by simp
next
  case (Cons chunk rest)
  let ?r = "take position result @ chunk @ drop (position + length chunk) result"
  from Cons.prems have fits: "\<not> length result < position + length chunk"
    by simp
  from Cons.prems have len: "length ?r = (position + length chunk) + length (concat rest)"
    by simp
  from Cons.prems have pre: "take (position + length chunk) ?r = take position result @ chunk"
    by simp
  have "copy_chunks (chunk # rest) result position
        = copy_chunks rest ?r (position + length chunk)"
    using fits by (simp add: set_at_def)
  also have "\<dots> = Inr (take (position + length chunk) ?r @ concat rest)"
    by (rule Cons.IH [OF len])
  finally show ?case
    using pre by simp
qed

lemma streamToBuffer_Closed: "streamToBuffer (chunks, Closed) = Inr (concat chunks)"
  using copy_chunks_fills [of "replicate (totalLength chunks) 0" 0 chunks]
  by (simp add: streamToBuffer_def read_loop_Closed totalLength_concat)


subsection \<open>From the verified event to the response\<close>

lemma fetch_Verified:
  "verify_request pf request env = Verified event \<Longrightarrow>
   fetch pf request env = (fst (dispatch env event), Inr (snd (dispatch env event)))"
  by (simp add: fetch_def split: prod.splits)

text \<open>The example requests reach the dispatch with the example platform's event.\<close>

lemma ex_body_collected: "streamToBuffer ex_body = Inr [0x7B, 0x7D]"
  by (simp add: ex_body_def streamToBuffer_Closed)

lemma ex_decode: "decode (ex_resolving r) [0x7B, 0x7D] = ''{}''"
  unfolding ex_resolving_def by code_simp

lemma ex_construct:
  "constructEventAsync (ex_resolving r) ''{}'' ''v1=whsec_test'' ''whsec_test'' = Inr r"
  by (simp add: ex_resolving_def)


lemma ex_verified:
  "verify_request (ex_platform event) (ex_request path method (Some ex_body)) ex_env
   = Verified event"
  by (simp add: verify_request_def ex_body_collected ex_decode ex_construct ex_request_def
      ex_env_def truthy_def ex_platform_def)



lemma ex_fetch:
  "fetch (ex_platform event) (ex_request path method (Some ex_body)) ex_env
   = (fst (dispatch ex_env event), Inr (snd (dispatch ex_env event)))"
  by (rule fetch_Verified [OF ex_verified])

text \<open>
  A paid session that passes every check of lines 149 to 169 reaches line 173: one entry
  is logged and the response is the default 200.
\<close>

lemma fetch_fulfills:
  assumes "verify_request pf request env = Verified event"
    and "event_type event = ''checkout.session.completed''"
    and "payment_link (data_object event) = STRIPE_PAYMENT_LINK_ID env"
    and "payment_status (data_object event) = Some ''paid''"
    and "amount_total (data_object event) = Some amount" and "50 \<le> amount"
    and "customer_details (data_object event) = Some details"
    and "mode (data_object event) \<noteq> Some ''subscription''"
    and "mode (data_object event) \<noteq> Some ''setup''"
  shows "\<exists>text. fetch pf request env =
           ([Log_not_implemented_yet (data_object event) text],
            Inr \<lparr>resp_status = 200, resp_headers = [], resp_body = text\<rparr>)"
  using assms
  by (simp add: fetch_Verified dispatch_def checkout_session_completed_def not_number_def
      less_than_def new_Response_def Let_def)


subsection \<open>What is left of the request before the event\<close>






subsection \<open>Delivering a request again\<close>

lemma deliver_replicate:
  "deliver pf request env n =
     (concat (replicate n (fst (fetch pf request env))),
      replicate n (snd (fetch pf request env)))"
  by (induction n) (simp_all split: prod.splits)

lemma fulfillments_replicate:
  "fulfillments (replicate n (Log_not_implemented_yet object text)) = n"
  by (simp add: fulfillments_def)

subsection \<open>The claims\<close>

text \<open>
  Claim C1 as stated (the same event delivered \<open>N > 1\<close> times is fulfilled exactly once)
  fails on main.ts: the handler keeps no ledger of processed events and never reads
  \<^verbatim>\<open>event.id\<close>. The same paid checkout delivered twice reaches line 173 twice, and
  both deliveries are answered with 200.
\<close>

theorem redelivery_fulfills_twice:
  "fulfillments (fst (deliver (ex_platform (ex_checkout ex_session))
       (ex_request ''/stripe-webhook'' ''POST'' (Some ex_body)) ex_env 2)) = 2
   \<and> map is_success (snd (deliver (ex_platform (ex_checkout ex_session))
       (ex_request ''/stripe-webhook'' ''POST'' (Some ex_body)) ex_env 2)) = [True, True]"
  unfolding deliver_replicate ex_fetch
  by (simp add: dispatch_def checkout_session_completed_def ex_checkout_def ex_session_def
      ex_env_def new_Response_def not_number_def less_than_def is_success_def fulfillments_def
      Let_def numeral_2_eq_2)

text \<open>
  Claim C1, amended. The handler is stateless: a verified
  \<^verbatim>\<open>checkout.session.completed\<close> event that passes every check (payment link, paid
  with a non-zero amount, customer details, mode, at least 50) reaches the place of
  fulfillment once on every delivery. Delivered \<open>n\<close> times it is fulfilled \<open>n\<close> times
  and acknowledged \<open>n\<close> times with a success status.
\<close>

theorem every_delivery_fulfills:
  assumes "verify_request pf request env = Verified event"
    and "event_type event = ''checkout.session.completed''"
    and "payment_link (data_object event) = STRIPE_PAYMENT_LINK_ID env"
    and "payment_status (data_object event) = Some ''paid''"
    and "amount_total (data_object event) = Some amount" and "50 \<le> amount"
    and "customer_details (data_object event) = Some details"
    and "mode (data_object event) \<noteq> Some ''subscription''"
    and "mode (data_object event) \<noteq> Some ''setup''"
  shows "fulfillments (fst (deliver pf request env n)) = n
         \<and> map is_success (snd (deliver pf request env n)) = replicate n True"
proof -
  from fetch_fulfills [OF assms] obtain msg where
    one: "fetch pf request env =
            ([Log_not_implemented_yet (data_object event) msg],
             Inr \<lparr>resp_status = 200, resp_headers = [], resp_body = msg\<rparr>)"
    by blast
  show ?thesis
    by (simp add: deliver_replicate one fulfillments_replicate is_success_def)
qed

theorem every_delivery_fulfills_witness:
  "fulfillments (fst (deliver (ex_platform (ex_checkout ex_session))
       (ex_request ''/stripe-webhook'' ''POST'' (Some ex_body)) ex_env 3)) = 3
   \<and> map is_success (snd (deliver (ex_platform (ex_checkout ex_session))
       (ex_request ''/stripe-webhook'' ''POST'' (Some ex_body)) ex_env 3))
     = [True, True, True]"
  using every_delivery_fulfills
          [OF ex_verified [of "ex_checkout ex_session" "''/stripe-webhook''" "''POST''"],
           where amount = 500 and n = 3]
  by (simp add: ex_checkout_def ex_session_def ex_env_def numeral_3_eq_3)




text \<open>
  Claim C3 as stated (an event of an unhandled type is acknowledged with a success
  status) fails on main.ts: lines 202 to 205 answer with status 404. For the type
  \<^verbatim>\<open>foo.bar\<close> the result is a client error and not a success.
\<close>

theorem unhandled_type_client_error:
  "is_client_error (snd (fetch (ex_platform (ex_subscription ''foo.bar'' ''active''))
      (ex_request ''/stripe-webhook'' ''POST'' (Some ex_body)) ex_env))
   \<and> \<not> is_success (snd (fetch (ex_platform (ex_subscription ''foo.bar'' ''active''))
      (ex_request ''/stripe-webhook'' ''POST'' (Some ex_body)) ex_env))"
  unfolding ex_fetch
  by (simp add: dispatch_def ex_subscription_def new_Response_def is_client_error_def
      is_success_def)

text \<open>
  Claim C3, amended. For every verified event whose type is neither
  \<^verbatim>\<open>checkout.session.completed\<close> nor one of \<^verbatim>\<open>customer.subscription.deleted\<close>,
  \<^verbatim>\<open>customer.subscription.updated\<close>, \<^verbatim>\<open>customer.subscription.paused\<close>, the handler
  answers with status 404 and the body \<^verbatim>\<open>{"isSuccessful":false,"message":"Invalid event"}\<close>;
  neither branch runs and nothing is logged.
\<close>

theorem unhandled_type_invalid_event:
  assumes "verify_request pf request env = Verified event"
    and "event_type event \<noteq> ''checkout.session.completed''"
    and "event_type event \<noteq> ''customer.subscription.deleted''"
    and "event_type event \<noteq> ''customer.subscription.updated''"
    and "event_type event \<noteq> ''customer.subscription.paused''"
  shows \<open>fetch pf request env =
           ([], Inr \<lparr>resp_status = 404, resp_headers = [],
                     resp_body = ''{"isSuccessful":false,"message":"Invalid event"}''\<rparr>)\<close>
  using assms by (simp add: fetch_Verified dispatch_def new_Response_def)

theorem unhandled_type_invalid_event_witness:
  \<open>fetch (ex_platform (ex_subscription ''invoice.paid'' ''active''))
     (ex_request ''/stripe-webhook'' ''POST'' (Some ex_body)) ex_env
   = ([], Inr \<lparr>resp_status = 404, resp_headers = [],
               resp_body = ''{"isSuccessful":false,"message":"Invalid event"}''\<rparr>)\<close>
  using unhandled_type_invalid_event
          [OF ex_verified [of "ex_subscription ''invoice.paid'' ''active''"
                              "''/stripe-webhook''" "''POST''"]]
  by (simp add: ex_subscription_def)

text \<open>
  Claim C4 (a request with no body is answered with a client error and no event is
  processed). On main.ts the second half holds and the first does not: lines 69 to 72
  build the response without a \<^verbatim>\<open>status\<close>, so it is the default 200, although its body
  says \<^verbatim>\<open>isSuccessful: false\<close> and every other error response of the function sets a
  status. Whatever the platform and the environment, nothing is verified or logged.
\<close>

theorem no_body_status_200:
  \<open>fetch pf \<lparr>url = u, http_method = m, headers = h, body = None\<rparr> env =
     ([], Inr \<lparr>resp_status = 200, resp_headers = [(''Content-Type'', ''application/json'')],
               resp_body = ''{"isSuccessful":false,"message":"No body"}''\<rparr>)\<close>
  by (simp add: fetch_def verify_request_def new_Response_def json_headers_def)

text \<open>
  Claim C5 as stated (a session whose customer is null or whose customer email is empty
  is rejected) fails on main.ts in its second case: line 158 tests
  \<^verbatim>\<open>customer_details\<close> only. A paid session with customer details, an empty email and
  no name is fulfilled and answered with 200.
\<close>

theorem empty_email_fulfilled:
  "is_success (snd (fetch
       (ex_platform (ex_checkout
          (ex_session\<lparr>customer_details := Some \<lparr>email = Some [], name = None\<rparr>\<rparr>)))
       (ex_request ''/stripe-webhook'' ''POST'' (Some ex_body)) ex_env))
   \<and> fulfillments (fst (fetch
       (ex_platform (ex_checkout
          (ex_session\<lparr>customer_details := Some \<lparr>email = Some [], name = None\<rparr>\<rparr>)))
       (ex_request ''/stripe-webhook'' ''POST'' (Some ex_body)) ex_env)) = 1"
  unfolding ex_fetch
  by (simp add: dispatch_def checkout_session_completed_def ex_checkout_def ex_session_def
      ex_env_def new_Response_def not_number_def less_than_def is_success_def fulfillments_def
      Let_def)

text \<open>
  Claim C5, amended. For every verified \<^verbatim>\<open>checkout.session.completed\<close> event that
  passes the payment link and paid-status checks, if \<^verbatim>\<open>customer_details\<close> is null the
  handler answers with status 400 (\<^verbatim>\<open>No customer details provided\<close>) and the payment
  is not fulfilled.
\<close>

theorem no_customer_details_rejected:
  assumes "verify_request pf request env = Verified event"
    and "event_type event = ''checkout.session.completed''"
    and "payment_link (data_object event) = STRIPE_PAYMENT_LINK_ID env"
    and "payment_status (data_object event) = Some ''paid''"
    and "amount_total (data_object event) = Some amount" and "amount \<noteq> 0"
    and "customer_details (data_object event) = None"
  shows "fetch pf request env =
           ([], Inr \<lparr>resp_status = 400, resp_headers = [],
                     resp_body = ''No customer details provided''\<rparr>)
         \<and> is_client_error (snd (fetch pf request env))
         \<and> fulfillments (fst (fetch pf request env)) = 0"
  using assms
  by (simp add: fetch_Verified dispatch_def checkout_session_completed_def not_number_def
      new_Response_def is_client_error_def fulfillments_def)

theorem no_customer_details_rejected_witness:
  "fetch (ex_platform (ex_checkout (ex_session\<lparr>customer_details := None\<rparr>)))
     (ex_request ''/stripe-webhook'' ''POST'' (Some ex_body)) ex_env
   = ([], Inr \<lparr>resp_status = 400, resp_headers = [],
               resp_body = ''No customer details provided''\<rparr>)"
  using no_customer_details_rejected
          [OF ex_verified [of "ex_checkout (ex_session\<lparr>customer_details := None\<rparr>)"
                              "''/stripe-webhook''" "''POST''"], where amount = 500]
  by (simp add: ex_checkout_def ex_session_def ex_env_def)

text \<open>
  Claim C6 as stated (the statuses unpaid, canceled and paused are revoke-worthy) fails
  on main.ts for paused: line 12 names unpaid and canceled only. A
  \<^verbatim>\<open>customer.subscription.paused\<close> event with status paused gets
  \<^verbatim>\<open>No action required\<close>.
\<close>

theorem paused_no_action_required:
  \<open>message (updateSubscribed
       (data_object (ex_subscription ''customer.subscription.paused'' ''paused'')))
     = ''No action required''
   \<and> fetch (ex_platform (ex_subscription ''customer.subscription.paused'' ''paused''))
       (ex_request ''/stripe-webhook'' ''POST'' (Some ex_body)) ex_env
     = ([], Inr \<lparr>resp_status = 200, resp_headers = [(''Content-Type'', ''application/json'')],
                 resp_body = ''{"status":200,"message":"No action required"}''\<rparr>)\<close>
  unfolding ex_fetch
  by (simp add: dispatch_def updateSubscribed_def ex_subscription_def new_Response_def
      json_headers_def stringify_result_def)

text \<open>
  Claim C6, amended. For every verified subscription event (deleted, updated or paused)
  the handler answers 200 with the JSON of what \<^verbatim>\<open>updateSubscribed\<close> returns: the
  removal message when the subscription's status is unpaid or canceled, and
  \<^verbatim>\<open>No action required\<close> for every other status, paused included. Nothing is logged
  in either case.
\<close>

theorem subscription_removed_when_unpaid_or_canceled:
  assumes "verify_request pf request env = Verified event"
    and "event_type event = ''customer.subscription.deleted''
         \<or> event_type event = ''customer.subscription.updated''
         \<or> event_type event = ''customer.subscription.paused''"
  shows "fetch pf request env =
           ([], Inr \<lparr>resp_status = 200, resp_headers = json_headers,
                     resp_body = stringify_result (updateSubscribed (data_object event))\<rparr>)
         \<and> updateSubscribed (data_object event) =
             \<lparr>result_status = 200,
              message = (if status (data_object event) = Some ''unpaid''
                            \<or> status (data_object event) = Some ''canceled''
                         then ''Removed from subscribers (they had credits before removal)''
                         else ''No action required'')\<rparr>"
  using assms
  by (auto simp add: fetch_Verified dispatch_def new_Response_def updateSubscribed_def)

theorem subscription_removed_when_unpaid_or_canceled_witness:
  \<open>fetch (ex_platform (ex_subscription ''customer.subscription.deleted'' ''canceled''))
     (ex_request ''/stripe-webhook'' ''POST'' (Some ex_body)) ex_env
   = ([], Inr \<lparr>resp_status = 200, resp_headers = [(''Content-Type'', ''application/json'')],
               resp_body = ''{"status":200,"message":"Removed from subscribers (they had credits before removal)"}''\<rparr>)\<close>
  using subscription_removed_when_unpaid_or_canceled
          [OF ex_verified [of "ex_subscription ''customer.subscription.deleted'' ''canceled''"
                              "''/stripe-webhook''" "''POST''"]]
  by (simp add: ex_subscription_def json_headers_def stringify_result_def)

text \<open>
  Claim C7. A verified \<^verbatim>\<open>checkout.session.completed\<close> event that passes the payment
  link, paid-status, customer and mode checks and whose \<^verbatim>\<open>amount_total\<close> is below 50 is
  answered with status 400 (\<^verbatim>\<open>Paid less than $0.50\<close>), and nothing is logged: the place
  where the payment would be fulfilled is not reached.
\<close>

theorem below_minimum_amount_rejected:
  assumes "verify_request pf request env = Verified event"
    and "event_type event = ''checkout.session.completed''"
    and "payment_link (data_object event) = STRIPE_PAYMENT_LINK_ID env"
    and "payment_status (data_object event) = Some ''paid''"
    and "amount_total (data_object event) = Some amount" and "amount \<noteq> 0"
    and "customer_details (data_object event) = Some details"
    and "mode (data_object event) \<noteq> Some ''subscription''"
    and "mode (data_object event) \<noteq> Some ''setup''"
    and "amount < 50"
  shows "fetch pf request env =
           ([], Inr \<lparr>resp_status = 400, resp_headers = [], resp_body = ''Paid less than $0.50''\<rparr>)
         \<and> is_client_error (snd (fetch pf request env))
         \<and> fulfillments (fst (fetch pf request env)) = 0"
  using assms
  by (simp add: fetch_Verified dispatch_def checkout_session_completed_def not_number_def
      less_than_def new_Response_def is_client_error_def fulfillments_def)

theorem below_minimum_amount_rejected_witness:
  "fetch (ex_platform (ex_checkout (ex_session\<lparr>amount_total := Some 10\<rparr>)))
     (ex_request ''/stripe-webhook'' ''POST'' (Some ex_body)) ex_env
   = ([], Inr \<lparr>resp_status = 400, resp_headers = [], resp_body = ''Paid less than $0.50''\<rparr>)"
  using below_minimum_amount_rejected
          [OF ex_verified [of "ex_checkout (ex_session\<lparr>amount_total := Some 10\<rparr>)"
                              "''/stripe-webhook''" "''POST''"], where amount = 10]
  by (simp add: ex_checkout_def ex_session_def ex_env_def)

text \<open>
  Claim C8 (byte-exactness of the body collector). For every sequence of chunks that the
  body stream produces before it closes, \<^verbatim>\<open>streamToBuffer\<close> returns exactly the chunks
  concatenated in order: the length of the buffer is the sum of the chunk lengths and
  every byte is the byte that was read, at the place where it was read.
\<close>

theorem streamToBuffer_byte_exact:
  "streamToBuffer (chunks, Closed) = Inr (concat chunks)
   \<and> length (concat chunks) = sum_list (map length chunks)"
  by (simp add: streamToBuffer_Closed length_concat)

text \<open>
  Claim C9 as stated (every paid checkout session with \<^verbatim>\<open>amount_total\<close> 0 takes the
  \<^verbatim>\<open>Payment not paid yet\<close> branch) fails on main.ts for a session of another payment
  link: the test of line 149 comes first and answers \<^verbatim>\<open>No payment link found\<close>.
\<close>

theorem zero_amount_other_link:
  "fetch (ex_platform (ex_checkout (ex_session\<lparr>amount_total := Some 0, payment_link := None\<rparr>)))
     (ex_request ''/stripe-webhook'' ''POST'' (Some ex_body)) ex_env
   = ([], Inr \<lparr>resp_status = 400, resp_headers = [], resp_body = ''No payment link found''\<rparr>)"
  unfolding ex_fetch
  by (simp add: dispatch_def checkout_session_completed_def ex_checkout_def ex_session_def
      ex_env_def new_Response_def)

text \<open>
  Claim C9, amended. For every verified \<^verbatim>\<open>checkout.session.completed\<close> event with
  \<^verbatim>\<open>payment_status\<close> paid and \<^verbatim>\<open>amount_total\<close> 0, the handler answers with status
  400 and fulfills nothing; when the session's \<^verbatim>\<open>payment_link\<close> is the configured one,
  the answer is \<^verbatim>\<open>Payment not paid yet\<close> (0 is as falsy as a missing amount), and
  otherwise it is \<^verbatim>\<open>No payment link found\<close>.
\<close>

theorem zero_amount_not_paid_yet:
  assumes "verify_request pf request env = Verified event"
    and "event_type event = ''checkout.session.completed''"
    and "payment_status (data_object event) = Some ''paid''"
    and "amount_total (data_object event) = Some 0"
  shows "fetch pf request env =
           ([], Inr \<lparr>resp_status = 400, resp_headers = [],
                     resp_body = (if payment_link (data_object event) = STRIPE_PAYMENT_LINK_ID env
                                  then ''Payment not paid yet'' else ''No payment link found'')\<rparr>)"
  using assms
  by (simp add: fetch_Verified dispatch_def checkout_session_completed_def not_number_def
      new_Response_def)

theorem zero_amount_not_paid_yet_witness:
  "fetch (ex_platform (ex_checkout (ex_session\<lparr>amount_total := Some 0\<rparr>)))
     (ex_request ''/stripe-webhook'' ''POST'' (Some ex_body)) ex_env
   = ([], Inr \<lparr>resp_status = 400, resp_headers = [], resp_body = ''Payment not paid yet''\<rparr>)"
  using zero_amount_not_paid_yet
          [OF ex_verified [of "ex_checkout (ex_session\<lparr>amount_total := Some 0\<rparr>)"
                              "''/stripe-webhook''" "''POST''"]]
  by (simp add: ex_checkout_def ex_session_def ex_env_def)

text \<open>
  Claim C10 (the path and the method do not matter). Two requests with the same headers
  and the same body get the same result from the handler, log included, whatever their
  URLs and methods: main.ts reads neither \<^verbatim>\<open>request.url\<close> nor \<^verbatim>\<open>request.method\<close>.
  The two requests are handled on the same platform, so with a verifier that takes the
  same decision for both.
\<close>

theorem fetch_ignores_path_and_method:
  assumes "headers request1 = headers request2" and "body request1 = body request2"
  shows "fetch pf request1 env = fetch pf request2 env"
proof -
  have "verify_request pf request1 env = verify_request pf request2 env"
    unfolding verify_request_def assms by (rule refl)
  then show ?thesis
    by (simp only: fetch_def)
qed

theorem fetch_ignores_path_and_method_witness:
  "fetch (ex_platform (ex_checkout ex_session)) (ex_request ''/anything'' ''GET'' (Some ex_body)) ex_env
   = fetch (ex_platform (ex_checkout ex_session))
       (ex_request ''/stripe-webhook'' ''POST'' (Some ex_body)) ex_env"
  using fetch_ignores_path_and_method
          [of "ex_request ''/anything'' ''GET'' (Some ex_body)"
              "ex_request ''/stripe-webhook'' ''POST'' (Some ex_body)"]
  by (simp add: ex_request_def)

end
